theory Spec2Isabelle
  imports Complex_Main "HOL-Library.Sublist" "HOL-Library.List_Lexorder" "HOL-Library.Char_ord"
begin

section \<open>WakaWeather: the forecast engine of \<^verbatim>\<open>weather_confidence.py\<close>\<close>

text \<open>
  A shallow embedding of the provider normalizers and the forecast aggregation functions of
  \<^verbatim>\<open>src/AI_Forcasting (python backend)/weather_confidence.py\<close>.

  Conventions of the embedding:
  \<^item> a Python \<^verbatim>\<open>float\<close> (and an \<^verbatim>\<open>int\<close> used as a number) is the real number it
    denotes; rounding of floating point arithmetic, infinities and NaN are not modelled;
  \<^item> a Python \<^verbatim>\<open>str\<close> is a \<open>string\<close> holding its UTF-8 bytes;
  \<^item> every exception the source can raise is a value \<open>Inl e\<close> of a sum type;
  \<^item> a value decoded from a JSON document is a \<open>json\<close>, its integers and its floats
    kept apart.
\<close>

subsection \<open>Python values and exceptions\<close>

datatype py_error =
  KeyError | IndexError | TypeError | AttributeError | ValueError | OverflowError
  | StatisticsError | JSONDecodeError

datatype json =
  JNull
  | JBool bool
  | JInt int
  | JNum real
  | JStr string
  | JArr "json list"
  | JObj "(string \<times> json) list"

text \<open>
  \<open>JInt n\<close> is a number written without fraction or exponent, decoded to a Python
  \<^verbatim>\<open>int\<close> of any size; \<open>JNum x\<close> is every other number, decoded to a \<^verbatim>\<open>float\<close>.
  \<open>JObj kvs\<close> is the \<^verbatim>\<open>dict\<close> the decoder built: \<open>kvs\<close> lists its items, and a key
  is looked up with \<open>map_of\<close>.
\<close>

definition ebind :: "py_error + 'a \<Rightarrow> ('a \<Rightarrow> py_error + 'b) \<Rightarrow> py_error + 'b" where
  "ebind m f = (case m of Inl e \<Rightarrow> Inl e | Inr v \<Rightarrow> f v)"

subsection \<open>The forecast record\<close>

text \<open>
  Every normalizer returns a \<^verbatim>\<open>dict\<close> with the five keys \<^verbatim>\<open>source\<close>, \<^verbatim>\<open>temp\<close>,
  \<^verbatim>\<open>rain\<close>, \<^verbatim>\<open>condition\<close> and \<^verbatim>\<open>wind\<close>. The record is polymorphic in the type of
  its numbers and of its condition: the normalizers build it from undecoded JSON values
  (\<open>(json, json) forecast\<close>), the confidence engine and the summary read numbers and
  text (\<open>(real, string) forecast\<close>).
\<close>

record ('n, 'c) forecast =
  source :: string
  temp :: 'n
  rain :: 'n
  condition :: 'c
  wind :: 'n

subsection \<open>Confidence score and label\<close>

text \<open>
  \<^verbatim>\<open>
  def weighted_confidence(f1, f2):
      td = abs(f1["temp"] - f2["temp"])
      rd = abs(f1["rain"] - f2["rain"])
      return max(0, min(100 - (td * 4 + rd * 5), 100))
  \<close>
\<close>

definition weighted_confidence :: "(real, 'c) forecast \<Rightarrow> (real, 'c) forecast \<Rightarrow> real" where
  "weighted_confidence f1 f2 =
     (let td = \<bar>temp f1 - temp f2\<bar>;
          rd = \<bar>rain f1 - rain f2\<bar>
      in max 0 (min (100 - (td * 4 + rd * 5)) 100))"

text \<open>The clamp of the specification, written from its words: \<open>x\<close> limited to \<open>[lo, hi]\<close>.\<close>

definition clamp_spec :: "real \<Rightarrow> real \<Rightarrow> real \<Rightarrow> real" where
  "clamp_spec x lo hi = (if x < lo then lo else if hi < x then hi else x)"

text \<open>
  \<^verbatim>\<open>
  def confidence_label(s): return "High" if s >= 85 else "Moderate" if s >= 60 else "Low"
  \<close>
\<close>

definition confidence_label :: "real \<Rightarrow> string" where
  "confidence_label s = (if s \<ge> 85 then ''High'' else if s \<ge> 60 then ''Moderate'' else ''Low'')"

subsection \<open>Strings\<close>

text \<open>
  \<^verbatim>\<open>str.lower()\<close>. On the ASCII letters it maps \<open>A..Z\<close> to \<open>a..z\<close>; every other byte
  is kept. Python also lowercases letters outside ASCII, but the result of that is never
  an ASCII letter of the words searched for below (\<open>storm\<close>, \<open>cyclone\<close>, \<open>rain\<close>), and
  a byte of a multi-byte UTF-8 sequence is never an ASCII byte, so the searches agree.
\<close>

definition lower_char :: "char \<Rightarrow> char" where
  "lower_char c =
     (case map_of (zip ''ABCDEFGHIJKLMNOPQRSTUVWXYZ'' ''abcdefghijklmnopqrstuvwxyz'') c of
        None \<Rightarrow> c | Some d \<Rightarrow> d)"

definition lower :: "string \<Rightarrow> string" where
  "lower s = map lower_char s"

text \<open>\<^verbatim>\<open>p in s\<close> on two strings: \<open>p\<close> occurs in \<open>s\<close> as a contiguous part.\<close>

fun sub_in :: "string \<Rightarrow> string \<Rightarrow> bool" where
  "sub_in p [] = (p = [])"
| "sub_in p (c # cs) = (prefix p (c # cs) \<or> sub_in p cs)"

text \<open>\<^verbatim>\<open>sep.join(xs)\<close>.\<close>

fun join :: "string \<Rightarrow> string list \<Rightarrow> string" where
  "join sep [] = []"
| "join sep [x] = x"
| "join sep (x # y # ys) = x @ sep @ join sep (y # ys)"

text \<open>The truth value Python gives a decoded JSON value (\<^verbatim>\<open>if v:\<close>).\<close>

fun truthy :: "json \<Rightarrow> bool" where
  "truthy JNull = False"
| "truthy (JBool b) = b"
| "truthy (JInt n) = (n \<noteq> 0)"
| "truthy (JNum x) = (x \<noteq> 0)"
| "truthy (JStr s) = (s \<noteq> [])"
| "truthy (JArr xs) = (xs \<noteq> [])"
| "truthy (JObj kvs) = (kvs \<noteq> [])"

text \<open>\<^verbatim>\<open>v.lower()\<close>: only a \<^verbatim>\<open>str\<close> has the method, every other value raises AttributeError.\<close>

fun str_lower :: "json \<Rightarrow> py_error + string" where
  "str_lower (JStr s) = Inr (lower s)"
| "str_lower _ = Inl AttributeError"

subsection \<open>Printing a number with one decimal\<close>

text \<open>
  The format specification \<^verbatim>\<open>:.1f\<close> prints the decimal numeral with one digit after the
  point that is nearest to the number, a tie going to the even neighbour.
\<close>

fun dec_digits :: "nat \<Rightarrow> string" where
  "dec_digits n =
     (if n < 10 then [''0123456789'' ! n]
      else dec_digits (n div 10) @ [''0123456789'' ! (n mod 10)])"

definition round_half_even :: "real \<Rightarrow> int" where
  "round_half_even x =
     (let f = \<lfloor>x\<rfloor>; d = x - of_int f
      in if d < 1 / 2 then f else if 1 / 2 < d then f + 1 else if even f then f else f + 1)"

definition format_1f :: "real \<Rightarrow> string" where
  "format_1f x =
     (let n = nat (round_half_even (\<bar>x\<bar> * 10))
      in (if x < 0 then ''-'' else []) @ dec_digits (n div 10) @ ''.'' @ dec_digits (n mod 10))"

text \<open>The number a decimal numeral denotes, for reading back what was printed.\<close>

definition dec_value :: "string \<Rightarrow> nat" where
  "dec_value s = foldl (\<lambda>a c. 10 * a + (of_char c - 48)) 0 s"

subsection \<open>Severity\<close>

text \<open>
  The alert messages start with the warning sign U+26A0 U+FE0F, six bytes in UTF-8.
  \<^verbatim>\<open>
  def detect_severe(cond, rain, wind):
      if cond and ("storm" in cond.lower() or "cyclone" in cond.lower()):
          return True, "<warning sign> Storm or cyclone risk"
      if rain > 10: return True, "<warning sign> Heavy rainfall expected"
      if wind > 10: return True, f"<warning sign> Strong winds expected ({wind:.1f} m/s)"
      return False, None
  \<close>
  The condition is any decoded value (the callers pass \<^verbatim>\<open>f1["condition"]\<close>); rainfall
  and wind are numbers. \<^verbatim>\<open>cond.lower()\<close> is evaluated once in the model: its second
  evaluation in the source returns the same string.
\<close>

definition warning_sign :: string where
  "warning_sign = [CHR 0xE2, CHR 0x9A, CHR 0xA0, CHR 0xEF, CHR 0xB8, CHR 0x8F]"

definition detect_severe :: "json \<Rightarrow> real \<Rightarrow> real \<Rightarrow> py_error + (bool \<times> string option)" where
  "detect_severe cond rain_mm wind_ms =
     ebind (if truthy cond
            then ebind (str_lower cond) (\<lambda>l. Inr (sub_in ''storm'' l \<or> sub_in ''cyclone'' l))
            else Inr False)
       (\<lambda>stormy.
          if stormy then Inr (True, Some (warning_sign @ '' Storm or cyclone risk''))
          else if rain_mm > 10 then Inr (True, Some (warning_sign @ '' Heavy rainfall expected''))
          else if wind_ms > 10
            then Inr (True, Some (warning_sign @ '' Strong winds expected (''
                                   @ format_1f wind_ms @ '' m/s)''))
          else Inr (False, None))"

text \<open>
  The specification's reading of "contains \<open>p\<close>, case-insensitively": some contiguous
  part of the text reads \<open>p\<close> once lowercased.
\<close>

definition contains_ci :: "string \<Rightarrow> string \<Rightarrow> bool" where
  "contains_ci p s = (\<exists>u w v. s = u @ w @ v \<and> lower w = p)"

subsection \<open>Recommendation\<close>

definition RECOMMENDATIONS_SUNNY :: "string list" where
  "RECOMMENDATIONS_SUNNY =
     [''Visit the beaches of Pacific Harbour'', ''Take a trip to Colo-i-Suva Forest Park'',
      ''Catch the sunset from Tamavua Hills'', ''Go reef diving near Beqa Lagoon'']"

definition RECOMMENDATIONS_RAINY :: "string list" where
  "RECOMMENDATIONS_RAINY =
     [''Visit TappooCity or MHCC for indoor shopping'',
      ''Relax at a resort with covered lounges'',
      ''Go to the cinema or enjoy indoor entertainment'',
      ''Try local dishes in an indoor food court'']"

text \<open>
  \<^verbatim>\<open>
  def adaptive_recommendation(cond, label):
      if label == "Low": return "Forecast uncertain. Prepare for all conditions."
      if "rain" in cond.lower() or "storm" in cond.lower():
          return ", ".join(random.sample(RECOMMENDATIONS_RAINY, 2))
      return ", ".join(random.sample(RECOMMENDATIONS_SUNNY, 2))
  \<close>
  The random draw is an argument: \<open>sample xs k\<close> is what \<^verbatim>\<open>random.sample(xs, k)\<close> returns
  in this call.
\<close>

definition adaptive_recommendation ::
  "json \<Rightarrow> string \<Rightarrow> (string list \<Rightarrow> nat \<Rightarrow> string list) \<Rightarrow> py_error + string" where
  "adaptive_recommendation cond label sample =
     (if label = ''Low'' then Inr ''Forecast uncertain. Prepare for all conditions.''
      else ebind (str_lower cond) (\<lambda>l.
        if sub_in ''rain'' l \<or> sub_in ''storm'' l
        then Inr (join '', '' (sample RECOMMENDATIONS_RAINY 2))
        else Inr (join '', '' (sample RECOMMENDATIONS_SUNNY 2))))"

subsection \<open>Summary\<close>

text \<open>
  \<^verbatim>\<open>statistics.pstdev\<close> of the standard library: the square root of the mean of the squared
  deviations from the mean; it raises StatisticsError on empty data.
\<close>

definition mean :: "real list \<Rightarrow> real" where
  "mean v = sum_list v / real (length v)"

definition pstdev :: "real list \<Rightarrow> py_error + real" where
  "pstdev v =
     (if v = [] then Inl StatisticsError
      else Inr (sqrt (sum_list (map (\<lambda>x. (x - mean v)\<^sup>2) v) / real (length v))))"

text \<open>
  \<^verbatim>\<open>
  def uncertainty_bounds(v): return pstdev(v) if len(v) > 1 else 0.0
  \<close>
\<close>

definition uncertainty_bounds :: "real list \<Rightarrow> py_error + real" where
  "uncertainty_bounds v = (if length v > 1 then pstdev v else Inr 0)"

text \<open>The builtins \<^verbatim>\<open>min\<close> and \<^verbatim>\<open>max\<close> of a list: ValueError on the empty list.\<close>

fun py_min :: "real list \<Rightarrow> py_error + real" where
  "py_min [] = Inl ValueError"
| "py_min (x # xs) = Inr (fold min xs x)"

fun py_max :: "real list \<Rightarrow> py_error + real" where
  "py_max [] = Inl ValueError"
| "py_max (x # xs) = Inr (fold max xs x)"

record summary =
  temp_range :: "real \<times> real"
  rain_range :: "real \<times> real"
  conditions :: "string list"
  temp_unc :: real
  rain_unc :: real

text \<open>
  \<^verbatim>\<open>
  def summarize(forecasts):
      temps = [f["temp"] for f in forecasts]; rains = [f["rain"] for f in forecasts]
      conds = sorted({f["condition"] for f in forecasts})
      return {"temp_range": (min(temps), max(temps)), "rain_range": (min(rains), max(rains)),
              "conditions": conds, "temp_unc": uncertainty_bounds(temps),
              "rain_unc": uncertainty_bounds(rains)}
  \<close>
  The set of conditions is the list without its duplicates; \<^verbatim>\<open>sorted\<close> orders strings
  lexicographically by code point, which is the order of their UTF-8 bytes.
\<close>

definition summarize :: "(real, string) forecast list \<Rightarrow> py_error + summary" where
  "summarize forecasts =
     (let temps = map temp forecasts;
          rains = map rain forecasts;
          conds = sort (remdups (map condition forecasts))
      in ebind (py_min temps) (\<lambda>tmin.
         ebind (py_max temps) (\<lambda>tmax.
         ebind (py_min rains) (\<lambda>rmin.
         ebind (py_max rains) (\<lambda>rmax.
         ebind (uncertainty_bounds temps) (\<lambda>tu.
         ebind (uncertainty_bounds rains) (\<lambda>ru.
           Inr \<lparr>temp_range = (tmin, tmax), rain_range = (rmin, rmax),
                conditions = conds, temp_unc = tu, rain_unc = ru\<rparr>)))))))"

text \<open>
  The population standard deviation as the specification means it:
  \<open>sqrt ((\<Sum>i<N. (v\<^sub>i - \<mu>)\<^sup>2) / N)\<close> with \<open>\<mu>\<close> the mean of the \<open>N\<close> samples.
\<close>

definition population_sd :: "real list \<Rightarrow> real" where
  "population_sd v =
     (let N = real (length v); \<mu> = (\<Sum>i<length v. v ! i) / N
      in sqrt ((\<Sum>i<length v. (v ! i - \<mu>)\<^sup>2) / N))"

text \<open>The batch of the specification's example.\<close>

definition example_batch :: "(real, string) forecast list" where
  "example_batch =
     [\<lparr>source = ''A'', temp = 20, rain = 0, condition = ''Clear'', wind = 3\<rparr>,
      \<lparr>source = ''B'', temp = 25, rain = 5, condition = ''Rain'', wind = 4\<rparr>]"

subsection \<open>Operations on decoded JSON values\<close>

text \<open>
  Python indexes and iterates a \<^verbatim>\<open>str\<close> by code point. In UTF-8 a code point is a lead
  byte followed by its continuation bytes (\<open>0x80..0xBF\<close>).
\<close>

definition is_continuation :: "char \<Rightarrow> bool" where
  "is_continuation c = (128 \<le> (of_char c :: nat) \<and> (of_char c :: nat) < 192)"

function code_points :: "string \<Rightarrow> string list" where
  "code_points [] = []"
| "code_points (c # cs) =
     (c # takeWhile is_continuation cs) # code_points (dropWhile is_continuation cs)"
  by pat_completeness auto
termination
  by (relation "measure length") (auto simp: less_Suc_eq_le length_dropWhile_le)

text \<open>
  A subscript \<^verbatim>\<open>v[k]\<close> with a string key or an integer index. A \<^verbatim>\<open>dict\<close> decoded from
  JSON has string keys only, so an integer is never one of its keys.
\<close>

datatype subscript = Key string | Idx nat

fun getitem :: "json \<Rightarrow> subscript \<Rightarrow> py_error + json" where
  "getitem (JObj kvs) (Key k) = (case map_of kvs k of None \<Rightarrow> Inl KeyError | Some v \<Rightarrow> Inr v)"
| "getitem (JObj kvs) (Idx i) = Inl KeyError"
| "getitem (JArr xs) (Idx i) = (if i < length xs then Inr (xs ! i) else Inl IndexError)"
| "getitem (JStr s) (Idx i) =
     (if i < length (code_points s) then Inr (JStr (code_points s ! i)) else Inl IndexError)"
| "getitem _ _ = Inl TypeError"

text \<open>A chain of subscripts \<^verbatim>\<open>v[k1][k2]...\<close>, evaluated left to right.\<close>

fun getitems :: "json \<Rightarrow> subscript list \<Rightarrow> py_error + json" where
  "getitems v [] = Inr v"
| "getitems v (k # ks) = ebind (getitem v k) (\<lambda>u. getitems u ks)"

text \<open>\<^verbatim>\<open>v.get(k, default)\<close>: a method of \<^verbatim>\<open>dict\<close> only.\<close>

fun dict_get :: "json \<Rightarrow> string \<Rightarrow> json \<Rightarrow> py_error + json" where
  "dict_get (JObj kvs) k d = Inr (case map_of kvs k of None \<Rightarrow> d | Some v \<Rightarrow> v)"
| "dict_get _ k d = Inl AttributeError"

text \<open>\<^verbatim>\<open>for e in v\<close>: the elements of a list, the characters of a string, the keys of a dict.\<close>

fun py_iter :: "json \<Rightarrow> py_error + json list" where
  "py_iter (JArr xs) = Inr xs"
| "py_iter (JStr s) = Inr (map JStr (code_points s))"
| "py_iter (JObj kvs) = Inr (map (\<lambda>kv. JStr (fst kv)) kvs)"
| "py_iter _ = Inl TypeError"

text \<open>\<^verbatim>\<open>v.startswith(p)\<close>: a method of \<^verbatim>\<open>str\<close>.\<close>

fun str_startswith :: "json \<Rightarrow> string \<Rightarrow> py_error + bool" where
  "str_startswith (JStr s) p = Inr (prefix p s)"
| "str_startswith _ p = Inl AttributeError"

text \<open>\<^verbatim>\<open>t in v\<close> for a string \<open>t\<close>: an element of a list, a part of a string, a key of a dict.\<close>

fun py_in :: "string \<Rightarrow> json \<Rightarrow> py_error + bool" where
  "py_in t (JArr xs) = Inr (JStr t \<in> set xs)"
| "py_in t (JStr s) = Inr (sub_in t s)"
| "py_in t (JObj kvs) = Inr (t \<in> fst ` set kvs)"
| "py_in t _ = Inl TypeError"

text \<open>
  \<^verbatim>\<open>v.index(t)\<close>: the first position of \<open>t\<close> in a list, or the code point offset of its
  first occurrence in a string; ValueError when there is none; no other value has the
  method.
\<close>

fun index_of :: "'a \<Rightarrow> 'a list \<Rightarrow> nat option" where
  "index_of x [] = None"
| "index_of x (y # ys) = (if x = y then Some 0 else map_option Suc (index_of x ys))"

fun find_sub :: "string \<Rightarrow> string \<Rightarrow> nat option" where
  "find_sub p [] = (if p = [] then Some 0 else None)"
| "find_sub p (c # cs) = (if prefix p (c # cs) then Some 0 else map_option Suc (find_sub p cs))"

fun py_index :: "json \<Rightarrow> string \<Rightarrow> py_error + nat" where
  "py_index (JArr xs) t = (case index_of (JStr t) xs of None \<Rightarrow> Inl ValueError | Some i \<Rightarrow> Inr i)"
| "py_index (JStr s) t =
     (case find_sub t s of None \<Rightarrow> Inl ValueError
      | Some off \<Rightarrow> Inr (length (code_points (take off s))))"
| "py_index _ t = Inl AttributeError"

text \<open>
  \<^verbatim>\<open>v == k\<close> for an integer literal \<open>k\<close>: numbers compare by value, \<^verbatim>\<open>bool\<close> as 1 and 0,
  and no other value is equal to a number.
\<close>

fun py_eq_int :: "json \<Rightarrow> int \<Rightarrow> bool" where
  "py_eq_int (JInt n) k = (n = k)"
| "py_eq_int (JNum x) k = (x = of_int k)"
| "py_eq_int (JBool b) k = ((if b then 1 else 0) = k)"
| "py_eq_int _ k = False"

text \<open>
  \<^verbatim>\<open>v * c\<close> for a float \<open>c\<close>. The left operand is converted to a float: a float is
  itself, a \<^verbatim>\<open>bool\<close> is 1 or 0, and an \<^verbatim>\<open>int\<close> is converted unless it is too large for
  a double, which raises OverflowError (the integers that round to \<open>2 ^ 1024\<close> or
  beyond: those of magnitude at least \<open>2 ^ 1024 - 2 ^ 970\<close>). On every other value the
  product raises TypeError.
\<close>

fun as_float :: "json \<Rightarrow> py_error + real" where
  "as_float (JNum x) = Inr x"
| "as_float (JInt n) =
     (if \<bar>n\<bar> < 2 ^ 1024 - 2 ^ 970 then Inr (of_int n) else Inl OverflowError)"
| "as_float (JBool b) = Inr (if b then 1 else 0)"
| "as_float _ = Inl TypeError"

definition mul_float :: "json \<Rightarrow> real \<Rightarrow> py_error + json" where
  "mul_float v c = ebind (as_float v) (\<lambda>x. Inr (JNum (x * c)))"

subsection \<open>The HTTP call\<close>

text \<open>
  What \<^verbatim>\<open>requests.get(url, timeout=TIMEOUT_S)\<close> does is an input of the model: it raises
  (no connection, timeout, ...) or returns a response. Of a response the normalizers use
  its truth value, which the library defines as its \<^verbatim>\<open>ok\<close> property (false exactly for
  the status codes 400 to 599), and \<^verbatim>\<open>r.json()\<close>, the decoded body, which raises when
  the body is not a JSON document (\<open>json_body = None\<close>).
  \<^verbatim>\<open>
  def retry_get(url):
      try:
          return requests.get(url, timeout=TIMEOUT_S)
      except:
          return None
  \<close>
\<close>

record response =
  status_code :: nat
  json_body :: "json option"

datatype http_outcome = Raises | Responds response

definition retry_get :: "http_outcome \<Rightarrow> response option" where
  "retry_get out = (case out of Raises \<Rightarrow> None | Responds r \<Rightarrow> Some r)"

definition response_truthy :: "response \<Rightarrow> bool" where
  "response_truthy r = (\<not> (400 \<le> status_code r \<and> status_code r < 600))"

definition response_json :: "response \<Rightarrow> py_error + json" where
  "response_json r = (case json_body r of None \<Rightarrow> Inl JSONDecodeError | Some v \<Rightarrow> Inr v)"

subsection \<open>The normalizers\<close>

text \<open>
  Each normalizer is \<^verbatim>\<open>try: ... except: return None\<close>: whatever its body raises, it
  returns \<^verbatim>\<open>None\<close>. A body that ends without a \<^verbatim>\<open>return\<close> returns \<^verbatim>\<open>None\<close> as well.
\<close>

definition except_return_None :: "py_error + 'a option \<Rightarrow> py_error + 'a option" where
  "except_return_None m = (case m of Inl e \<Rightarrow> Inr None | Inr v \<Rightarrow> Inr v)"

text \<open>
  The dict display \<^verbatim>\<open>{"source": s, "temp": t, "rain": r, "condition": c, "wind": w}\<close>:
  its items are evaluated in this order and the first exception ends the evaluation.
\<close>

definition forecast_dict ::
  "string \<Rightarrow> py_error + json \<Rightarrow> py_error + json \<Rightarrow> py_error + json \<Rightarrow> py_error + json
     \<Rightarrow> py_error + (json, json) forecast" where
  "forecast_dict s t r c w =
     ebind t (\<lambda>tv. ebind r (\<lambda>rv. ebind c (\<lambda>cv. ebind w (\<lambda>wv.
       Inr \<lparr>source = s, temp = tv, rain = rv, condition = cv, wind = wv\<rparr>))))"

text \<open>
  \<^verbatim>\<open>
  def get_openweather(city):
      try:
          r = retry_get(f"https://api.openweathermap.org/...&units=metric")
          if not r: return None
          data = r.json()
          target = (datetime.now(timezone.utc) + timedelta(days=1)).strftime("%Y-%m-%d")
          for e in data.get("list", []):
              if e["dt_txt"].startswith(target) and "12:00:00" in e["dt_txt"]:
                  return {"source": "OpenWeatherMap", "temp": e["main"]["temp"],
                          "rain": e.get("rain", {}).get("3h", 0),
                          "condition": e["weather"][0]["description"],
                          "wind": e["wind"]["speed"]}
      except: return None
  \<close>
  The clock is an input: \<open>tomorrow\<close> is the date of the next UTC day, printed
  \<^verbatim>\<open>%Y-%m-%d\<close>.
\<close>

definition openweather_entry :: "json \<Rightarrow> py_error + (json, json) forecast" where
  "openweather_entry e =
     forecast_dict ''OpenWeatherMap''
       (getitems e [Key ''main'', Key ''temp''])
       (ebind (dict_get e ''rain'' (JObj [])) (\<lambda>r. dict_get r ''3h'' (JInt 0)))
       (getitems e [Key ''weather'', Idx 0, Key ''description''])
       (getitems e [Key ''wind'', Key ''speed''])"

definition openweather_match :: "string \<Rightarrow> json \<Rightarrow> py_error + bool" where
  "openweather_match target e =
     ebind (getitem e (Key ''dt_txt'')) (\<lambda>d.
     ebind (str_startswith d target) (\<lambda>starts.
       if starts then py_in ''12:00:00'' d else Inr False))"

fun openweather_loop :: "string \<Rightarrow> json list \<Rightarrow> py_error + (json, json) forecast option" where
  "openweather_loop target [] = Inr None"
| "openweather_loop target (e # es) =
     (case openweather_match target e of
        Inl err \<Rightarrow> Inl err
      | Inr True \<Rightarrow> ebind (openweather_entry e) (\<lambda>f. Inr (Some f))
      | Inr False \<Rightarrow> openweather_loop target es)"

definition get_openweather ::
  "http_outcome \<Rightarrow> string \<Rightarrow> py_error + (json, json) forecast option" where
  "get_openweather out tomorrow =
     except_return_None
       (case retry_get out of
          None \<Rightarrow> Inr None
        | Some r \<Rightarrow>
            if \<not> response_truthy r then Inr None
            else ebind (response_json r) (\<lambda>data.
                 ebind (dict_get data ''list'' (JArr [])) (\<lambda>l.
                 ebind (py_iter l) (\<lambda>es. openweather_loop tomorrow es))))"

text \<open>
  \<^verbatim>\<open>
  def get_weatherapi(city):
      try:
          r = retry_get(f"http://api.weatherapi.com/v1/forecast.json?...&days=2")
          if not r: return None
          day = r.json()["forecast"]["forecastday"][1]["day"]
          return {"source": "WeatherAPI", "temp": day["avgtemp_c"], "rain": day["totalprecip_mm"],
                  "condition": day["condition"]["text"], "wind": day["maxwind_mph"] * 0.44704}
      except: return None
  \<close>
\<close>

definition get_weatherapi :: "http_outcome \<Rightarrow> py_error + (json, json) forecast option" where
  "get_weatherapi out =
     except_return_None
       (case retry_get out of
          None \<Rightarrow> Inr None
        | Some r \<Rightarrow>
            if \<not> response_truthy r then Inr None
            else ebind (response_json r) (\<lambda>data.
                 ebind (getitems data [Key ''forecast'', Key ''forecastday'', Idx 1, Key ''day''])
                   (\<lambda>day.
                 ebind (forecast_dict ''WeatherAPI''
                          (getitem day (Key ''avgtemp_c''))
                          (getitem day (Key ''totalprecip_mm''))
                          (getitems day [Key ''condition'', Key ''text''])
                          (ebind (getitem day (Key ''maxwind_mph''))
                             (\<lambda>mph. mul_float mph 0.44704)))
                   (\<lambda>f. Inr (Some f)))))"

text \<open>
  \<^verbatim>\<open>
  def get_weatherstack(city):
      try:
          r = retry_get(f"http://api.weatherstack.com/current?...")
          if not r: return None
          cur = r.json()["current"]
          return {"source": "Weatherstack", "temp": cur["temperature"], "rain": cur["precip"],
                  "condition": cur["weather_descriptions"][0], "wind": cur["wind_speed"] * 0.277778}
      except: return None
  \<close>
\<close>

definition get_weatherstack :: "http_outcome \<Rightarrow> py_error + (json, json) forecast option" where
  "get_weatherstack out =
     except_return_None
       (case retry_get out of
          None \<Rightarrow> Inr None
        | Some r \<Rightarrow>
            if \<not> response_truthy r then Inr None
            else ebind (response_json r) (\<lambda>data.
                 ebind (getitem data (Key ''current'')) (\<lambda>cur.
                 ebind (forecast_dict ''Weatherstack''
                          (getitem cur (Key ''temperature''))
                          (getitem cur (Key ''precip''))
                          (getitems cur [Key ''weather_descriptions'', Idx 0])
                          (ebind (getitem cur (Key ''wind_speed''))
                             (\<lambda>kmh. mul_float kmh 0.277778)))
                   (\<lambda>f. Inr (Some f)))))"

text \<open>
  \<^verbatim>\<open>
  def get_openmeteo(lat, lon):
      try:
          r = retry_get(
              f"https://api.open-meteo.com/v1/forecast?latitude={lat}&longitude={lon}"
              "&hourly=temperature_2m,precipitation,weathercode,windspeed_10m&timezone=auto"
          )
          if not r: return None
          data = r.json()
          t = (datetime.now(timezone.utc) + timedelta(days=1)).strftime("%Y-%m-%dT12:00")
          if t in data["hourly"]["time"]:
              i = data["hourly"]["time"].index(t)
              code = data["hourly"]["weathercode"][i]
              cond = "Storm" if code in [95, 96, 99] else "Clear or Cloudy"
              return {"source": "Open-Meteo", "temp": data["hourly"]["temperature_2m"][i],
                      "rain": data["hourly"]["precipitation"][i], "condition": cond,
                      "wind": data["hourly"]["windspeed_10m"][i]}
      except: return None
  \<close>
  \<^verbatim>\<open>data["hourly"]["time"]\<close> is evaluated once in the model: its second evaluation
  returns the same value.
\<close>

definition storm_code :: "json \<Rightarrow> bool" where
  "storm_code code = (py_eq_int code 95 \<or> py_eq_int code 96 \<or> py_eq_int code 99)"

definition get_openmeteo ::
  "http_outcome \<Rightarrow> string \<Rightarrow> py_error + (json, json) forecast option" where
  "get_openmeteo out tomorrow =
     except_return_None
       (case retry_get out of
          None \<Rightarrow> Inr None
        | Some r \<Rightarrow>
            if \<not> response_truthy r then Inr None
            else ebind (response_json r) (\<lambda>data.
                 let t = tomorrow @ ''T12:00'' in
                 ebind (getitems data [Key ''hourly'', Key ''time'']) (\<lambda>times.
                 ebind (py_in t times) (\<lambda>present.
                   if present then
                     ebind (py_index times t) (\<lambda>i.
                     ebind (getitems data [Key ''hourly'', Key ''weathercode'', Idx i]) (\<lambda>code.
                     let cond = (if storm_code code then ''Storm'' else ''Clear or Cloudy'') in
                     ebind (forecast_dict ''Open-Meteo''
                              (getitems data [Key ''hourly'', Key ''temperature_2m'', Idx i])
                              (getitems data [Key ''hourly'', Key ''precipitation'', Idx i])
                              (Inr (JStr cond))
                              (getitems data [Key ''hourly'', Key ''windspeed_10m'', Idx i]))
                       (\<lambda>f. Inr (Some f))))
                   else Inr None))))"

subsection \<open>What a normalizer reads from a body\<close>

text \<open>
  The relations below say, in terms of the paths into the decoded body alone, which
  forecast a body yields. They are the specification the normalizers are compared with.

  OpenWeatherMap: the body is an object whose \<^verbatim>\<open>list\<close> is an array; the entry read is the
  first whose \<^verbatim>\<open>dt_txt\<close> starts with tomorrow's date and contains \<open>12:00:00\<close>, every
  entry before it having a text \<^verbatim>\<open>dt_txt\<close> too. Temperature, condition and wind are the
  values found, of any JSON type; the rain is the value at \<^verbatim>\<open>rain.3h\<close>, and the integer
  0 when the entry has no \<^verbatim>\<open>rain\<close> or its \<^verbatim>\<open>rain\<close> object has no \<^verbatim>\<open>3h\<close>.
\<close>

definition openweather_rain :: "json \<Rightarrow> json \<Rightarrow> bool" where
  "openweather_rain e r =
     (\<exists>kvs. e = JObj kvs \<and>
        (case map_of kvs ''rain'' of
           None \<Rightarrow> r = JInt 0
         | Some (JObj rkvs) \<Rightarrow> r = (case map_of rkvs ''3h'' of None \<Rightarrow> JInt 0 | Some v \<Rightarrow> v)
         | Some _ \<Rightarrow> False))"

definition target_entry :: "string \<Rightarrow> json \<Rightarrow> bool option" where
  "target_entry tomorrow e =
     (case getitem e (Key ''dt_txt'') of
        Inr (JStr d) \<Rightarrow> Some (prefix tomorrow d \<and> sub_in ''12:00:00'' d)
      | _ \<Rightarrow> None)"

definition openweather_reads :: "string \<Rightarrow> json \<Rightarrow> (json, json) forecast \<Rightarrow> bool" where
  "openweather_reads tomorrow data f =
     (\<exists>kvs before e after t r c w.
        data = JObj kvs \<and> map_of kvs ''list'' = Some (JArr (before @ e # after))
        \<and> list_all (\<lambda>x. target_entry tomorrow x = Some False) before
        \<and> target_entry tomorrow e = Some True
        \<and> getitems e [Key ''main'', Key ''temp''] = Inr t
        \<and> openweather_rain e r
        \<and> getitems e [Key ''weather'', Idx 0, Key ''description''] = Inr c
        \<and> getitems e [Key ''wind'', Key ''speed''] = Inr w
        \<and> f = \<lparr>source = ''OpenWeatherMap'', temp = t, rain = r, condition = c, wind = w\<rparr>)"

text \<open>
  WeatherAPI: the fields of \<^verbatim>\<open>forecast.forecastday[1].day\<close>; the wind is the number at
  \<^verbatim>\<open>maxwind_mph\<close> times 0.44704.
\<close>

definition weatherapi_reads :: "json \<Rightarrow> (json, json) forecast \<Rightarrow> bool" where
  "weatherapi_reads data f =
     (\<exists>t r c mph x.
        getitems data [Key ''forecast'', Key ''forecastday'', Idx 1, Key ''day'',
                       Key ''avgtemp_c''] = Inr t
        \<and> getitems data [Key ''forecast'', Key ''forecastday'', Idx 1, Key ''day'',
                         Key ''totalprecip_mm''] = Inr r
        \<and> getitems data [Key ''forecast'', Key ''forecastday'', Idx 1, Key ''day'',
                         Key ''condition'', Key ''text''] = Inr c
        \<and> getitems data [Key ''forecast'', Key ''forecastday'', Idx 1, Key ''day'',
                         Key ''maxwind_mph''] = Inr mph
        \<and> as_float mph = Inr x
        \<and> f = \<lparr>source = ''WeatherAPI'', temp = t, rain = r, condition = c,
                wind = JNum (x * 0.44704)\<rparr>)"

text \<open>
  Weatherstack: the fields of \<^verbatim>\<open>current\<close>; the wind is the number at \<^verbatim>\<open>wind_speed\<close>
  times 0.277778.
\<close>

definition weatherstack_reads :: "json \<Rightarrow> (json, json) forecast \<Rightarrow> bool" where
  "weatherstack_reads data f =
     (\<exists>t r c kmh x.
        getitems data [Key ''current'', Key ''temperature''] = Inr t
        \<and> getitems data [Key ''current'', Key ''precip''] = Inr r
        \<and> getitems data [Key ''current'', Key ''weather_descriptions'', Idx 0] = Inr c
        \<and> getitems data [Key ''current'', Key ''wind_speed''] = Inr kmh
        \<and> as_float kmh = Inr x
        \<and> f = \<lparr>source = ''Weatherstack'', temp = t, rain = r, condition = c,
                wind = JNum (x * 0.277778)\<rparr>)"

text \<open>
  Open-Meteo: \<open>i\<close> is the position of tomorrow's 12:00 in \<^verbatim>\<open>hourly.time\<close>; temperature,
  rain and wind are the values at \<open>i\<close> of their hourly series, of any JSON type; the
  condition is "Storm" for the weather codes 95, 96 and 99 and "Clear or Cloudy" for
  every other value.
\<close>

definition openmeteo_reads :: "string \<Rightarrow> json \<Rightarrow> (json, json) forecast \<Rightarrow> bool" where
  "openmeteo_reads tomorrow data f =
     (\<exists>times i code t r w.
        getitems data [Key ''hourly'', Key ''time''] = Inr times
        \<and> py_in (tomorrow @ ''T12:00'') times = Inr True
        \<and> py_index times (tomorrow @ ''T12:00'') = Inr i
        \<and> getitems data [Key ''hourly'', Key ''weathercode'', Idx i] = Inr code
        \<and> getitems data [Key ''hourly'', Key ''temperature_2m'', Idx i] = Inr t
        \<and> getitems data [Key ''hourly'', Key ''precipitation'', Idx i] = Inr r
        \<and> getitems data [Key ''hourly'', Key ''windspeed_10m'', Idx i] = Inr w
        \<and> f = \<lparr>source = ''Open-Meteo'', temp = t, rain = r,
                condition = JStr (if storm_code code then ''Storm'' else ''Clear or Cloudy''),
                wind = w\<rparr>)"

subsection \<open>Units of speed\<close>



subsection \<open>Example responses\<close>

text \<open>
  A well-formed body of each provider, with the values of its fields left open where a
  property quantifies over them.
\<close>

definition ok_response :: "json \<Rightarrow> http_outcome" where
  "ok_response body = Responds \<lparr>status_code = 200, json_body = Some body\<rparr>"

definition unavailable :: response where
  "unavailable = \<lparr>status_code = 503, json_body = None\<rparr>"

definition openweather_body :: "json \<Rightarrow> json \<Rightarrow> json \<Rightarrow> json" where
  "openweather_body t c w =
     JObj [(''cod'', JStr ''200''),
           (''list'', JArr [
              JObj [(''dt_txt'', JStr ''2026-11-04 09:00:00''),
                    (''main'', JObj [(''temp'', JInt 20)])],
              JObj [(''dt_txt'', JStr ''2026-11-04 12:00:00''),
                    (''main'', JObj [(''temp'', t)]),
                    (''weather'', JArr [JObj [(''description'', c)]]),
                    (''wind'', JObj [(''speed'', w)])]])]"

definition weatherapi_body :: "json \<Rightarrow> json \<Rightarrow> json \<Rightarrow> json \<Rightarrow> json" where
  "weatherapi_body t r c mph =
     JObj [(''forecast'', JObj [(''forecastday'', JArr [
        JObj [(''date'', JStr ''2026-11-03'')],
        JObj [(''day'', JObj [(''avgtemp_c'', t), (''totalprecip_mm'', r),
                              (''condition'', JObj [(''text'', c)]),
                              (''maxwind_mph'', mph)])]])])]"

definition weatherstack_body :: "json \<Rightarrow> json \<Rightarrow> json \<Rightarrow> json \<Rightarrow> json" where
  "weatherstack_body t r c kmh =
     JObj [(''current'', JObj [(''temperature'', t), (''precip'', r),
                               (''weather_descriptions'', JArr [c]),
                               (''wind_speed'', kmh)])]"

definition openmeteo_body :: "json \<Rightarrow> json \<Rightarrow> json \<Rightarrow> json" where
  "openmeteo_body t r w =
     JObj [(''hourly_units'', JObj [(''windspeed_10m'', JStr ''km/h'')]),
           (''hourly'', JObj [
              (''time'', JArr [JStr ''2026-11-04T11:00'', JStr ''2026-11-04T12:00'']),
              (''weathercode'', JArr [JInt 3, JInt 95]),
              (''temperature_2m'', JArr [JNum 26.4, t]),
              (''precipitation'', JArr [JInt 0, r]),
              (''windspeed_10m'', JArr [JNum 12.5, w])])]"

section \<open>Properties\<close>

subsection \<open>Confidence score\<close>

text \<open>
  C1: for every pair of forecasts, \<open>weighted_confidence f1 f2\<close> is the clamp to \<open>[0, 100]\<close>
  of \<open>100 - (|temp f1 - temp f2| * 4 + |rain f1 - rain f2| * 5)\<close>, and so it lies in
  \<open>[0, 100]\<close> however far the two forecasts are apart.
\<close>

theorem weighted_confidence_clamped:
  "weighted_confidence f1 f2 =
     clamp_spec (100 - (\<bar>temp f1 - temp f2\<bar> * 4 + \<bar>rain f1 - rain f2\<bar> * 5)) 0 100
   \<and> 0 \<le> weighted_confidence f1 f2 \<and> weighted_confidence f1 f2 \<le> 100"
  by (simp add: weighted_confidence_def clamp_spec_def Let_def)

subsection \<open>Confidence label\<close>

text \<open>
  C3: the label of a score \<open>s\<close> is High exactly when \<open>s \<ge> 85\<close>, Moderate exactly when
  \<open>60 \<le> s < 85\<close> and Low exactly when \<open>s < 60\<close>; the lower bound of each band is
  inclusive, so 85 is High and 60 is Moderate, while 84.999 is Moderate and 59.999 is Low.
\<close>

theorem confidence_label_bands:
  "(confidence_label s = ''High'' \<longleftrightarrow> 85 \<le> s)
   \<and> (confidence_label s = ''Moderate'' \<longleftrightarrow> 60 \<le> s \<and> s < 85)
   \<and> (confidence_label s = ''Low'' \<longleftrightarrow> s < 60)
   \<and> confidence_label 85 = ''High''
   \<and> confidence_label (84999 / 1000) = ''Moderate''
   \<and> confidence_label 60 = ''Moderate''
   \<and> confidence_label (59999 / 1000) = ''Low''"
  by (simp add: confidence_label_def)

subsection \<open>Severity\<close>

lemma sub_in_sublist: "sub_in p s \<longleftrightarrow> sublist p s"
  by (induction s) (simp_all add: sublist_Cons_right)

lemma sub_in_lower_iff: "sub_in p (lower s) \<longleftrightarrow> contains_ci p s"
proof
  assume "sub_in p (lower s)"
  then obtain ps ss where "map lower_char s = ps @ p @ ss"
    by (auto simp: sub_in_sublist sublist_def lower_def)
  then have "\<exists>u w v. s = u @ w @ v \<and> map lower_char w = p"
    by (fastforce simp: map_eq_append_conv append_eq_map_conv)
  then show "contains_ci p s"
    unfolding contains_ci_def lower_def .
next
  assume "contains_ci p s"
  then obtain u w v where "s = u @ w @ v" "lower w = p"
    unfolding contains_ci_def by blast
  then have "lower s = lower u @ p @ lower v"
    by (simp add: lower_def)
  then show "sub_in p (lower s)"
    unfolding sub_in_sublist sublist_def by blast
qed

lemma round_half_even_near: "\<bar>of_int (round_half_even y) - y\<bar> \<le> 1 / 2"
  unfolding round_half_even_def Let_def
  by (auto simp: abs_le_iff split: if_splits)

lemma round_half_even_nonneg: "0 \<le> y \<Longrightarrow> 0 \<le> round_half_even y"
  unfolding round_half_even_def Let_def
  by (auto split: if_splits)

lemma digit_char: "k < 10 \<Longrightarrow> (of_char (''0123456789'' ! k) :: nat) = 48 + k"
proof -
  assume "k < 10"
  then consider "k = 0" | "k = 1" | "k = 2" | "k = 3" | "k = 4" | "k = 5" | "k = 6"
    | "k = 7" | "k = 8" | "k = 9"
    by atomize_elim arith
  then show ?thesis by cases simp_all
qed

lemma dec_value_snoc: "dec_value (s @ [c]) = 10 * dec_value s + (of_char c - 48)"
  by (simp add: dec_value_def)

text \<open>\<open>dec_digits\<close> prints the decimal numeral of a number: reading it back gives the number.\<close>

lemma dec_value_dec_digits: "dec_value (dec_digits n) = n"
proof (induction n rule: dec_digits.induct)
  case (1 n)
  show ?case
  proof (cases "n < 10")
    case True
    then show ?thesis
      using digit_char [of n] by (subst dec_digits.simps) (simp add: dec_value_def)
  next
    case False
    with 1 have "dec_value (dec_digits (n div 10)) = n div 10" by simp
    with False show ?thesis
      using digit_char [of "n mod 10"]
      by (subst dec_digits.simps) (simp add: dec_value_snoc)
  qed
qed

text \<open>
  What \<open>format_1f\<close> prints is a sign, the numeral of an integer part \<open>q\<close>, a point and
  one digit \<open>d\<close>, and the decimal \<open>q.d\<close> is within \<open>0.05\<close> of the number printed.
\<close>

lemma format_1f_rounds:
  "\<exists>q d. d < 10
     \<and> format_1f x = (if x < 0 then ''-'' else []) @ dec_digits q @ ''.'' @ dec_digits d
     \<and> dec_value (dec_digits q) = q \<and> dec_value (dec_digits d) = d
     \<and> \<bar>real q + real d / 10 - \<bar>x\<bar>\<bar> \<le> 1 / 20"
proof -
  define n where "n = nat (round_half_even (\<bar>x\<bar> * 10))"
  have nn: "int n = round_half_even (\<bar>x\<bar> * 10)"
    unfolding n_def using round_half_even_nonneg [of "\<bar>x\<bar> * 10"] by simp
  have "\<bar>of_int (round_half_even (\<bar>x\<bar> * 10)) - \<bar>x\<bar> * 10\<bar> \<le> 1 / 2"
    by (rule round_half_even_near)
  then have near: "\<bar>real n - \<bar>x\<bar> * 10\<bar> \<le> 1 / 2"
    using nn by (metis of_int_of_nat_eq)
  have split: "real n = 10 * real (n div 10) + real (n mod 10)"
    by (metis of_nat_add of_nat_mult of_nat_numeral div_mult_mod_eq mult.commute)
  have "\<bar>real (n div 10) + real (n mod 10) / 10 - \<bar>x\<bar>\<bar> \<le> 1 / 20"
    using near unfolding split by linarith
  moreover have "format_1f x =
      (if x < 0 then ''-'' else []) @ dec_digits (n div 10) @ ''.'' @ dec_digits (n mod 10)"
    unfolding format_1f_def n_def Let_def by simp
  moreover have "n mod 10 < 10" by simp
  moreover note dec_value_dec_digits [of "n div 10"] dec_value_dec_digits [of "n mod 10"]
  ultimately show ?thesis by blast
qed

lemma detect_severe_text:
  "detect_severe (JStr s) r w = Inr
     (if contains_ci ''storm'' s \<or> contains_ci ''cyclone'' s
        then (True, Some (warning_sign @ '' Storm or cyclone risk''))
      else if r > 10 then (True, Some (warning_sign @ '' Heavy rainfall expected''))
      else if w > 10
        then (True, Some (warning_sign @ '' Strong winds expected ('' @ format_1f w @ '' m/s)''))
      else (False, None))"
proof (cases "s = []")
  case True
  have "\<not> contains_ci ''storm'' []" "\<not> contains_ci ''cyclone'' []"
    by (simp_all add: contains_ci_def lower_def)
  with True show ?thesis
    by (simp add: detect_severe_def ebind_def)
next
  case False
  then show ?thesis
    by (simp add: detect_severe_def ebind_def sub_in_lower_iff del: sub_in.simps)
qed

lemma detect_severe_storm_example:
  "detect_severe (JStr ''Tropical Storm approaching'') 0 0
     = Inr (True, Some (warning_sign @ '' Storm or cyclone risk''))"
  by (simp add: detect_severe_def ebind_def lower_def lower_char_def)

lemma detect_severe_rain_example:
  "detect_severe (JStr ''Clear skies'') 15 0
     = Inr (True, Some (warning_sign @ '' Heavy rainfall expected''))"
  by (simp add: detect_severe_def ebind_def lower_def lower_char_def)

lemma detect_severe_wind_example:
  "detect_severe (JStr ''Clear skies'') 0 (123 / 10)
     = Inr (True, Some (warning_sign @ '' Strong winds expected (12.3 m/s)''))"
  by (simp add: detect_severe_def ebind_def lower_def lower_char_def format_1f_def
      round_half_even_def)

lemma detect_severe_calm_example:
  "detect_severe (JStr ''Clear skies'') 2 1 = Inr (False, None)"
  by (simp add: detect_severe_def ebind_def lower_def lower_char_def)

text \<open>
  C2: for every condition text, rainfall and wind, \<open>detect_severe\<close> applies its rules in
  order and the first match wins: a text that contains "storm" or "cyclone", in any
  case, is severe with the storm or cyclone message; otherwise rainfall above 10 is
  severe with the heavy rainfall message; otherwise wind above 10 is severe with a
  message that holds the wind printed with one decimal (the numeral \<open>q.d\<close> of a number
  within 0.05 of the wind); otherwise the forecast is not severe and there is no message. The four examples
  of the specification evaluate accordingly.
\<close>

theorem detect_severe_rules:
  "detect_severe (JStr s) r w = Inr
     (if contains_ci ''storm'' s \<or> contains_ci ''cyclone'' s
        then (True, Some (warning_sign @ '' Storm or cyclone risk''))
      else if r > 10 then (True, Some (warning_sign @ '' Heavy rainfall expected''))
      else if w > 10
        then (True, Some (warning_sign @ '' Strong winds expected ('' @ format_1f w @ '' m/s)''))
      else (False, None))
   \<and> (\<exists>q d. d < 10
         \<and> format_1f w = (if w < 0 then ''-'' else []) @ dec_digits q @ ''.'' @ dec_digits d
         \<and> dec_value (dec_digits q) = q \<and> dec_value (dec_digits d) = d
         \<and> \<bar>real q + real d / 10 - \<bar>w\<bar>\<bar> \<le> 1 / 20)
   \<and> detect_severe (JStr ''Tropical Storm approaching'') 0 0
         = Inr (True, Some (warning_sign @ '' Storm or cyclone risk''))
   \<and> detect_severe (JStr ''Clear skies'') 15 0
         = Inr (True, Some (warning_sign @ '' Heavy rainfall expected''))
   \<and> detect_severe (JStr ''Clear skies'') 0 (123 / 10)
         = Inr (True, Some (warning_sign @ '' Strong winds expected (12.3 m/s)''))
   \<and> detect_severe (JStr ''Clear skies'') 2 1 = Inr (False, None)"
  using detect_severe_text [of s r w] format_1f_rounds [of w]
    detect_severe_storm_example detect_severe_rain_example
    detect_severe_wind_example detect_severe_calm_example
  by (intro conjI)

text \<open>
  C10: with the condition \<^verbatim>\<open>None\<close> or the empty string, \<open>detect_severe\<close> raises nothing:
  the text rule is skipped and the result follows from the rainfall and wind thresholds
  alone. (A condition that is neither text nor falsy, such as a non-zero number, does
  raise: the last conjunct.)
\<close>

theorem detect_severe_falsy_condition:
  "detect_severe JNull r w = Inr
     (if r > 10 then (True, Some (warning_sign @ '' Heavy rainfall expected''))
      else if w > 10
        then (True, Some (warning_sign @ '' Strong winds expected ('' @ format_1f w @ '' m/s)''))
      else (False, None))
   \<and> detect_severe (JStr []) r w = Inr
     (if r > 10 then (True, Some (warning_sign @ '' Heavy rainfall expected''))
      else if w > 10
        then (True, Some (warning_sign @ '' Strong winds expected ('' @ format_1f w @ '' m/s)''))
      else (False, None))
   \<and> detect_severe (JNum 5) r w = Inl AttributeError"
  by (simp add: detect_severe_def ebind_def)

subsection \<open>Recommendation\<close>

text \<open>
  C8: with the label "Low", \<open>adaptive_recommendation\<close> returns the one fixed message
  "Forecast uncertain. Prepare for all conditions." for every condition and every random
  draw; the condition is not inspected, so even \<^verbatim>\<open>None\<close> is accepted there, while under
  another label \<^verbatim>\<open>None\<close> raises (the last conjunct).
\<close>

theorem adaptive_recommendation_low:
  "adaptive_recommendation cond ''Low'' sample
     = Inr ''Forecast uncertain. Prepare for all conditions.''
   \<and> adaptive_recommendation JNull ''High'' sample = Inl AttributeError"
  by (simp add: adaptive_recommendation_def ebind_def)

subsection \<open>Summary\<close>

lemma py_min_Min: "v \<noteq> [] \<Longrightarrow> py_min v = Inr (Min (set v))"
proof (cases v)
  case (Cons x xs)
  then show ?thesis using Min.set_eq_fold [of x xs] by simp
qed simp

lemma py_max_Max: "v \<noteq> [] \<Longrightarrow> py_max v = Inr (Max (set v))"
proof (cases v)
  case (Cons x xs)
  then show ?thesis using Max.set_eq_fold [of x xs] by simp
qed simp

lemma pstdev_population_sd: "v \<noteq> [] \<Longrightarrow> pstdev v = Inr (population_sd v)"
  by (simp add: pstdev_def population_sd_def mean_def Let_def sum_list_sum_nth atLeast0LessThan)

lemma uncertainty_bounds_eq:
  "uncertainty_bounds v = Inr (if 2 \<le> length v then population_sd v else 0)"
proof (cases "2 \<le> length v")
  case True
  then have "v \<noteq> []" by auto
  with True show ?thesis
    by (simp add: uncertainty_bounds_def pstdev_population_sd)
next
  case False
  then show ?thesis by (simp add: uncertainty_bounds_def)
qed

lemma summarize_value:
  assumes "forecasts \<noteq> []"
  shows "summarize forecasts = Inr
     \<lparr>temp_range = (Min (temp ` set forecasts), Max (temp ` set forecasts)),
      rain_range = (Min (rain ` set forecasts), Max (rain ` set forecasts)),
      conditions = sort (remdups (map condition forecasts)),
      temp_unc = (if 2 \<le> length forecasts then population_sd (map temp forecasts) else 0),
      rain_unc = (if 2 \<le> length forecasts then population_sd (map rain forecasts) else 0)\<rparr>"
proof -
  have t: "map temp forecasts \<noteq> []" and r: "map rain forecasts \<noteq> []"
    using assms by simp_all
  show ?thesis
    unfolding summarize_def Let_def
    by (simp add: ebind_def py_min_Min [OF t] py_max_Max [OF t] py_min_Min [OF r]
        py_max_Max [OF r] uncertainty_bounds_eq)
qed

lemma summarize_single:
  "summarize [f] = Inr \<lparr>temp_range = (temp f, temp f), rain_range = (rain f, rain f),
       conditions = [condition f], temp_unc = 0, rain_unc = 0\<rparr>"
  by (simp add: summarize_def ebind_def uncertainty_bounds_def)

lemma sqrt_25_4: "sqrt (25 / 4) = 5 / 2"
proof -
  have "sqrt ((5 / 2)\<^sup>2) = 5 / 2" by simp
  then show ?thesis by (simp add: power2_eq_square)
qed

lemma summarize_example:
  "summarize example_batch
     = Inr \<lparr>temp_range = (20, 25), rain_range = (0, 5), conditions = [''Clear'', ''Rain''],
           temp_unc = 5 / 2, rain_unc = 5 / 2\<rparr>"
  by (simp add: example_batch_def summarize_def ebind_def uncertainty_bounds_def pstdev_def
      mean_def power2_eq_square sqrt_25_4 less_eq_list_code less_list_code less_char_def
      less_eq_char_def)

text \<open>
  C4: for every non-empty batch, \<open>summarize\<close> returns a summary whose temperature and
  rainfall ranges are the minimum and maximum of the metric over the batch, whose
  conditions are the distinct condition strings in ascending lexicographic order, and
  whose uncertainties are the population standard deviation of the metric when the batch
  has at least two forecasts and 0 when it has one. For a batch of one forecast both
  ranges are that forecast's own values.
\<close>

theorem summarize_nonempty:
  assumes "forecasts \<noteq> []"
  shows "\<exists>s. summarize forecasts = Inr s
     \<and> temp_range s = (Min (temp ` set forecasts), Max (temp ` set forecasts))
     \<and> rain_range s = (Min (rain ` set forecasts), Max (rain ` set forecasts))
     \<and> sorted (conditions s) \<and> distinct (conditions s)
     \<and> set (conditions s) = condition ` set forecasts
     \<and> temp_unc s = (if 2 \<le> length forecasts then population_sd (map temp forecasts) else 0)
     \<and> rain_unc s = (if 2 \<le> length forecasts then population_sd (map rain forecasts) else 0)
     \<and> summarize [f] = Inr \<lparr>temp_range = (temp f, temp f), rain_range = (rain f, rain f),
           conditions = [condition f], temp_unc = 0, rain_unc = 0\<rparr>"
  using summarize_value [OF assms] summarize_single [of f] by simp

theorem summarize_nonempty_witness:
  "example_batch \<noteq> []
   \<and> (\<exists>s. summarize example_batch = Inr s
        \<and> temp_range s = (20, 25) \<and> rain_range s = (0, 5)
        \<and> conditions s = [''Clear'', ''Rain'']
        \<and> 0 < temp_unc s \<and> 0 < rain_unc s)"
proof -
  have ne: "example_batch \<noteq> []"
    by (simp add: example_batch_def)
  from summarize_nonempty [OF ne] obtain s where s: "summarize example_batch = Inr s"
    by blast
  with summarize_example have "s = \<lparr>temp_range = (20, 25), rain_range = (0, 5),
      conditions = [''Clear'', ''Rain''], temp_unc = 5 / 2, rain_unc = 5 / 2\<rparr>"
    by simp
  with ne s show ?thesis by simp
qed

text \<open>
  C5 as stated fails: on the empty batch \<open>summarize\<close> returns no summary, since the
  minimum of the empty temperature list raises ValueError before an uncertainty is
  computed.
\<close>

theorem summarize_empty_raises: "summarize [] = Inl ValueError"
  by (simp add: summarize_def ebind_def)

text \<open>
  C5 as amended: \<open>summarize\<close> fails with ValueError exactly on the empty batch and
  returns a summary on every other one; on the empty list it is \<open>uncertainty_bounds\<close>
  alone that returns 0.
\<close>

theorem summarize_fails_iff_empty:
  "(summarize forecasts = Inl ValueError \<longleftrightarrow> forecasts = [])
   \<and> ((\<exists>s. summarize forecasts = Inr s) \<longleftrightarrow> forecasts \<noteq> [])
   \<and> uncertainty_bounds [] = Inr 0"
proof (cases "forecasts = []")
  case True
  then show ?thesis by (simp add: summarize_def ebind_def uncertainty_bounds_def)
next
  case False
  from summarize_value [OF this] show ?thesis
    using False by (simp add: uncertainty_bounds_def)
qed

subsection \<open>Normalizers\<close>

lemma ebind_Inr_iff: "ebind m g = Inr v \<longleftrightarrow> (\<exists>u. m = Inr u \<and> g u = Inr v)"
  by (cases m) (simp_all add: ebind_def)

lemma ebind_simps [simp]: "ebind (Inl e) g = Inl e" "ebind (Inr u) g = g u"
  by (simp_all add: ebind_def)

lemma except_return_None_total: "\<exists>res. except_return_None m = Inr res"
  by (cases m) (simp_all add: except_return_None_def)

lemma except_return_None_Some: "except_return_None m = Inr (Some f) \<longleftrightarrow> m = Inr (Some f)"
  by (cases m) (auto simp: except_return_None_def)

lemma forecast_dict_Inr_iff:
  "forecast_dict s t r c w = Inr f \<longleftrightarrow>
     (\<exists>tv rv cv wv. t = Inr tv \<and> r = Inr rv \<and> c = Inr cv \<and> w = Inr wv
        \<and> f = \<lparr>source = s, temp = tv, rain = rv, condition = cv, wind = wv\<rparr>)"
  by (auto simp: forecast_dict_def ebind_Inr_iff)

lemma getitems_append:
  "getitems v (ks @ ls) = ebind (getitems v ks) (\<lambda>u. getitems u ls)"
proof (induction ks arbitrary: v)
  case Nil
  show ?case by simp
next
  case (Cons a ks)
  show ?case by (cases "getitem v a") (simp_all add: Cons.IH)
qed

lemma getitems_single: "getitems v [k] = getitem v k"
  by (cases "getitem v k") simp_all

lemma mul_float_Inr_iff:
  "mul_float v c = Inr w \<longleftrightarrow> (\<exists>x. as_float v = Inr x \<and> w = JNum (x * c))"
  by (auto simp: mul_float_def ebind_Inr_iff)

text \<open>
  The shape every normalizer shares: a forecast is returned exactly when the call
  returned a response whose status is not 400 to 599 and whose body is JSON, and the
  rest of the body of the \<^verbatim>\<open>try\<close> returns that forecast.
\<close>

lemma normalizer_Some_iff:
  "except_return_None
     (case retry_get out of
        None \<Rightarrow> Inr None
      | Some r \<Rightarrow> if \<not> response_truthy r then Inr None else ebind (response_json r) body)
     = Inr (Some f) \<longleftrightarrow>
   (\<exists>resp data. out = Responds resp
      \<and> \<not> (400 \<le> status_code resp \<and> status_code resp < 600)
      \<and> json_body resp = Some data \<and> body data = Inr (Some f))"
proof (cases out)
  case Raises
  then show ?thesis
    by (simp add: retry_get_def except_return_None_def)
next
  case (Responds r)
  show ?thesis
  proof (cases "json_body r")
    case None
    with Responds show ?thesis
      by (simp add: retry_get_def except_return_None_def response_json_def)
  next
    case (Some data)
    with Responds show ?thesis
      by (simp add: retry_get_def except_return_None_Some response_json_def
          response_truthy_def)
  qed
qed

subsubsection \<open>OpenWeatherMap\<close>

lemma openweather_match_iff: "openweather_match t e = Inr b \<longleftrightarrow> target_entry t e = Some b"
proof (cases "getitem e (Key ''dt_txt'')")
  case (Inl err)
  then show ?thesis
    by (simp add: openweather_match_def target_entry_def)
next
  case (Inr d)
  then show ?thesis
    by (cases d) (auto simp: openweather_match_def target_entry_def)
qed

lemma openweather_rain_iff:
  "ebind (dict_get e ''rain'' (JObj [])) (\<lambda>r. dict_get r ''3h'' (JInt 0)) = Inr r
     \<longleftrightarrow> openweather_rain e r"
proof (cases e)
  case (JObj kvs)
  show ?thesis
  proof (cases "map_of kvs ''rain''")
    case None
    with JObj show ?thesis
      by (auto simp: openweather_rain_def)
  next
    case (Some v)
    with JObj show ?thesis
      by (cases v) (auto simp: openweather_rain_def split: option.splits)
  qed
qed (simp_all add: openweather_rain_def)

lemma openweather_entry_iff:
  "openweather_entry e = Inr f \<longleftrightarrow>
     (\<exists>t r c w. getitems e [Key ''main'', Key ''temp''] = Inr t
        \<and> openweather_rain e r
        \<and> getitems e [Key ''weather'', Idx 0, Key ''description''] = Inr c
        \<and> getitems e [Key ''wind'', Key ''speed''] = Inr w
        \<and> f = \<lparr>source = ''OpenWeatherMap'', temp = t, rain = r, condition = c, wind = w\<rparr>)"
  unfolding openweather_entry_def forecast_dict_Inr_iff openweather_rain_iff ..

lemma openweather_loop_Some_iff:
  "openweather_loop t es = Inr (Some f) \<longleftrightarrow>
     (\<exists>before e after. es = before @ e # after
        \<and> list_all (\<lambda>x. target_entry t x = Some False) before
        \<and> target_entry t e = Some True \<and> openweather_entry e = Inr f)"
proof (induction es)
  case Nil
  show ?case by simp
next
  case (Cons a es)
  show ?case
  proof (cases "openweather_match t a")
    case (Inl err)
    then have none: "target_entry t a = None"
      using openweather_match_iff [of t a] by (cases "target_entry t a") auto
    have "\<not> (\<exists>before e after. a # es = before @ e # after
        \<and> list_all (\<lambda>x. target_entry t x = Some False) before
        \<and> target_entry t e = Some True \<and> openweather_entry e = Inr f)"
      using none by (auto simp: Cons_eq_append_conv)
    with Inl show ?thesis by simp
  next
    case (Inr b)
    then have tb: "target_entry t a = Some b"
      by (simp add: openweather_match_iff)
    show ?thesis
    proof (cases b)
      case True
      have "(\<exists>before e after. a # es = before @ e # after
          \<and> list_all (\<lambda>x. target_entry t x = Some False) before
          \<and> target_entry t e = Some True \<and> openweather_entry e = Inr f)
        \<longleftrightarrow> openweather_entry a = Inr f"
      proof
        assume "\<exists>before e after. a # es = before @ e # after
          \<and> list_all (\<lambda>x. target_entry t x = Some False) before
          \<and> target_entry t e = Some True \<and> openweather_entry e = Inr f"
        then obtain before e after where split: "a # es = before @ e # after"
          and bf: "list_all (\<lambda>x. target_entry t x = Some False) before"
          and e: "openweather_entry e = Inr f"
          by blast
        have "before = []"
        proof (cases before)
          case (Cons x xs)
          with split have "x = a" by simp
          with Cons bf tb True show ?thesis by simp
        qed simp
        with split e show "openweather_entry a = Inr f" by simp
      next
        assume "openweather_entry a = Inr f"
        with tb True have "a # es = [] @ a # es
          \<and> list_all (\<lambda>x. target_entry t x = Some False) []
          \<and> target_entry t a = Some True \<and> openweather_entry a = Inr f"
          by simp
        then show "\<exists>before e after. a # es = before @ e # after
          \<and> list_all (\<lambda>x. target_entry t x = Some False) before
          \<and> target_entry t e = Some True \<and> openweather_entry e = Inr f"
          by blast
      qed
      with Inr True show ?thesis
        by (simp add: ebind_Inr_iff)
    next
      case False
      have "(\<exists>before e after. a # es = before @ e # after
          \<and> list_all (\<lambda>x. target_entry t x = Some False) before
          \<and> target_entry t e = Some True \<and> openweather_entry e = Inr f)
        \<longleftrightarrow> (\<exists>before e after. es = before @ e # after
          \<and> list_all (\<lambda>x. target_entry t x = Some False) before
          \<and> target_entry t e = Some True \<and> openweather_entry e = Inr f)"
      proof
        assume "\<exists>before e after. a # es = before @ e # after
          \<and> list_all (\<lambda>x. target_entry t x = Some False) before
          \<and> target_entry t e = Some True \<and> openweather_entry e = Inr f"
        then obtain before e after where split: "a # es = before @ e # after"
          and bf: "list_all (\<lambda>x. target_entry t x = Some False) before"
          and e: "target_entry t e = Some True" "openweather_entry e = Inr f"
          by blast
        show "\<exists>before e after. es = before @ e # after
          \<and> list_all (\<lambda>x. target_entry t x = Some False) before
          \<and> target_entry t e = Some True \<and> openweather_entry e = Inr f"
        proof (cases before)
          case Nil
          with split have "e = a" by simp
          with e tb False show ?thesis by simp
        next
          case (Cons x xs)
          with split have "es = xs @ e # after" by simp
          moreover from Cons bf have "list_all (\<lambda>x. target_entry t x = Some False) xs"
            by simp
          ultimately show ?thesis using e by blast
        qed
      next
        assume "\<exists>before e after. es = before @ e # after
          \<and> list_all (\<lambda>x. target_entry t x = Some False) before
          \<and> target_entry t e = Some True \<and> openweather_entry e = Inr f"
        then obtain before e after where "es = before @ e # after"
          and "list_all (\<lambda>x. target_entry t x = Some False) before"
          and "target_entry t e = Some True" "openweather_entry e = Inr f"
          by blast
        with tb False have "a # es = (a # before) @ e # after
          \<and> list_all (\<lambda>x. target_entry t x = Some False) (a # before)
          \<and> target_entry t e = Some True \<and> openweather_entry e = Inr f"
          by simp
        then show "\<exists>before e after. a # es = before @ e # after
          \<and> list_all (\<lambda>x. target_entry t x = Some False) before
          \<and> target_entry t e = Some True \<and> openweather_entry e = Inr f"
          by blast
      qed
      with Inr False Cons.IH show ?thesis by simp
    qed
  qed
qed

lemma openweather_loop_texts:
  "list_all (\<lambda>x. \<exists>c. x = JStr c) es \<Longrightarrow> openweather_loop t es \<noteq> Inr (Some f)"
proof
  assume texts: "list_all (\<lambda>x. \<exists>c. x = JStr c) es"
    and "openweather_loop t es = Inr (Some f)"
  then obtain before e after where "es = before @ e # after" "target_entry t e = Some True"
    unfolding openweather_loop_Some_iff by blast
  with texts obtain c where "e = JStr c" "target_entry t e = Some True"
    by auto
  then show False by (simp add: target_entry_def)
qed

lemma openweather_body_iff:
  "ebind (dict_get data ''list'' (JArr [])) (\<lambda>l.
     ebind (py_iter l) (\<lambda>es. openweather_loop t es)) = Inr (Some f)
   \<longleftrightarrow> openweather_reads t data f"
proof (cases data)
  case (JObj kvs)
  show ?thesis
  proof (cases "map_of kvs ''list''")
    case None
    with JObj show ?thesis
      by (simp add: openweather_reads_def)
  next
    case (Some l)
    show ?thesis
    proof (cases l)
      case (JArr es)
      with JObj Some show ?thesis
        unfolding openweather_reads_def
        by (simp add: openweather_loop_Some_iff openweather_entry_iff)
    next
      case (JStr s)
      have "openweather_loop t (map JStr (code_points s)) \<noteq> Inr (Some f)"
        by (rule openweather_loop_texts) (simp add: list_all_iff)
      with JObj Some JStr show ?thesis
        by (simp add: openweather_reads_def)
    next
      case (JObj kvs')
      have "openweather_loop t (map (\<lambda>kv. JStr (fst kv)) kvs') \<noteq> Inr (Some f)"
        by (rule openweather_loop_texts) (simp add: list_all_iff)
      with \<open>data = JObj kvs\<close> Some JObj show ?thesis
        by (simp add: openweather_reads_def)
    qed (use JObj Some in \<open>simp_all add: openweather_reads_def\<close>)
  qed
qed (simp_all add: openweather_reads_def)

lemma get_openweather_Some_iff:
  "get_openweather out tom = Inr (Some f) \<longleftrightarrow>
     (\<exists>resp data. out = Responds resp
        \<and> \<not> (400 \<le> status_code resp \<and> status_code resp < 600)
        \<and> json_body resp = Some data \<and> openweather_reads tom data f)"
  unfolding get_openweather_def normalizer_Some_iff openweather_body_iff ..

subsubsection \<open>WeatherAPI\<close>

lemma weatherapi_body_iff:
  "ebind (getitems data [Key ''forecast'', Key ''forecastday'', Idx 1, Key ''day'']) (\<lambda>day.
     ebind (forecast_dict ''WeatherAPI''
              (getitem day (Key ''avgtemp_c''))
              (getitem day (Key ''totalprecip_mm''))
              (getitems day [Key ''condition'', Key ''text''])
              (ebind (getitem day (Key ''maxwind_mph'')) (\<lambda>mph. mul_float mph 0.44704)))
       (\<lambda>f. Inr (Some f))) = Inr (Some f)
   \<longleftrightarrow> weatherapi_reads data f"
proof -
  let ?day = "[Key ''forecast'', Key ''forecastday'', Idx 1, Key ''day'']"
  have paths: "getitems data (?day @ ks) = ebind (getitems data ?day) (\<lambda>u. getitems u ks)"
    for ks by (rule getitems_append)
  show ?thesis
  proof (cases "getitems data ?day")
    case (Inl err)
    then show ?thesis
      using paths [of "[Key ''avgtemp_c'']"] by (simp add: weatherapi_reads_def)
  next
    case (Inr day)
    then show ?thesis
      using paths [of "[Key ''avgtemp_c'']"] paths [of "[Key ''totalprecip_mm'']"]
        paths [of "[Key ''condition'', Key ''text'']"] paths [of "[Key ''maxwind_mph'']"]
      unfolding weatherapi_reads_def
      by (simp add: forecast_dict_Inr_iff ebind_Inr_iff mul_float_Inr_iff getitems_single
          del: getitems.simps) blast
  qed
qed

lemma get_weatherapi_Some_iff:
  "get_weatherapi out = Inr (Some f) \<longleftrightarrow>
     (\<exists>resp data. out = Responds resp
        \<and> \<not> (400 \<le> status_code resp \<and> status_code resp < 600)
        \<and> json_body resp = Some data \<and> weatherapi_reads data f)"
  unfolding get_weatherapi_def normalizer_Some_iff weatherapi_body_iff ..

subsubsection \<open>Weatherstack\<close>

lemma weatherstack_body_iff:
  "ebind (getitem data (Key ''current'')) (\<lambda>cur.
     ebind (forecast_dict ''Weatherstack''
              (getitem cur (Key ''temperature''))
              (getitem cur (Key ''precip''))
              (getitems cur [Key ''weather_descriptions'', Idx 0])
              (ebind (getitem cur (Key ''wind_speed'')) (\<lambda>kmh. mul_float kmh 0.277778)))
       (\<lambda>f. Inr (Some f))) = Inr (Some f)
   \<longleftrightarrow> weatherstack_reads data f"
proof -
  have paths: "getitems data (Key ''current'' # ks)
      = ebind (getitem data (Key ''current'')) (\<lambda>u. getitems u ks)"
    for ks by simp
  show ?thesis
  proof (cases "getitem data (Key ''current'')")
    case (Inl err)
    then show ?thesis
      using paths [of "[Key ''temperature'']"] by (simp add: weatherstack_reads_def)
  next
    case (Inr cur)
    then show ?thesis
      using paths [of "[Key ''temperature'']"] paths [of "[Key ''precip'']"]
        paths [of "[Key ''weather_descriptions'', Idx 0]"] paths [of "[Key ''wind_speed'']"]
      unfolding weatherstack_reads_def
      by (simp add: forecast_dict_Inr_iff ebind_Inr_iff mul_float_Inr_iff getitems_single
          del: getitems.simps) blast
  qed
qed

lemma get_weatherstack_Some_iff:
  "get_weatherstack out = Inr (Some f) \<longleftrightarrow>
     (\<exists>resp data. out = Responds resp
        \<and> \<not> (400 \<le> status_code resp \<and> status_code resp < 600)
        \<and> json_body resp = Some data \<and> weatherstack_reads data f)"
  unfolding get_weatherstack_def normalizer_Some_iff weatherstack_body_iff ..

subsubsection \<open>Open-Meteo\<close>

lemma openmeteo_body_iff:
  "(let t = tom @ ''T12:00'' in
     ebind (getitems data [Key ''hourly'', Key ''time'']) (\<lambda>times.
     ebind (py_in t times) (\<lambda>present.
       if present then
         ebind (py_index times t) (\<lambda>i.
         ebind (getitems data [Key ''hourly'', Key ''weathercode'', Idx i]) (\<lambda>code.
         let cond = (if storm_code code then ''Storm'' else ''Clear or Cloudy'') in
         ebind (forecast_dict ''Open-Meteo''
                  (getitems data [Key ''hourly'', Key ''temperature_2m'', Idx i])
                  (getitems data [Key ''hourly'', Key ''precipitation'', Idx i])
                  (Inr (JStr cond))
                  (getitems data [Key ''hourly'', Key ''windspeed_10m'', Idx i]))
           (\<lambda>f. Inr (Some f))))
       else Inr None))) = Inr (Some f)
   \<longleftrightarrow> openmeteo_reads tom data f"
proof (cases "getitems data [Key ''hourly'', Key ''time'']")
  case (Inl err)
  then show ?thesis
    by (simp add: openmeteo_reads_def Let_def del: getitems.simps)
next
  case times: (Inr times)
  show ?thesis
  proof (cases "py_in (tom @ ''T12:00'') times")
    case (Inl err)
    with times show ?thesis
      by (simp add: openmeteo_reads_def Let_def del: getitems.simps)
  next
    case (Inr present)
    show ?thesis
    proof (cases present)
      case False
      with times Inr show ?thesis
        by (simp add: openmeteo_reads_def Let_def del: getitems.simps)
    next
      case True
      with times Inr show ?thesis
        unfolding openmeteo_reads_def Let_def
        by (simp add: forecast_dict_Inr_iff ebind_Inr_iff del: getitems.simps)
    qed
  qed
qed

lemma get_openmeteo_Some_iff:
  "get_openmeteo out tom = Inr (Some f) \<longleftrightarrow>
     (\<exists>resp data. out = Responds resp
        \<and> \<not> (400 \<le> status_code resp \<and> status_code resp < 600)
        \<and> json_body resp = Some data \<and> openmeteo_reads tom data f)"
  unfolding get_openmeteo_def normalizer_Some_iff openmeteo_body_iff ..

subsubsection \<open>The example responses\<close>

lemma get_openweather_example:
  "get_openweather (Responds \<lparr>status_code = s, json_body = Some (openweather_body t c w)\<rparr>)
       ''2026-11-04''
     = (if 400 \<le> s \<and> s < 600 then Inr None
        else Inr (Some \<lparr>source = ''OpenWeatherMap'', temp = t, rain = JInt 0,
                        condition = c, wind = w\<rparr>))"
  by (simp add: get_openweather_def openweather_body_def retry_get_def
      response_truthy_def response_json_def except_return_None_def openweather_match_def
      openweather_entry_def forecast_dict_def)

lemma get_weatherapi_example:
  "get_weatherapi (Responds \<lparr>status_code = s, json_body = Some (weatherapi_body t r c mph)\<rparr>)
     = (if 400 \<le> s \<and> s < 600 then Inr None
        else case as_float mph of
               Inl err \<Rightarrow> Inr None
             | Inr x \<Rightarrow> Inr (Some \<lparr>source = ''WeatherAPI'', temp = t, rain = r,
                                    condition = c, wind = JNum (x * 0.44704)\<rparr>))"
  by (cases "as_float mph")
    (simp_all add: get_weatherapi_def weatherapi_body_def retry_get_def
      response_truthy_def response_json_def except_return_None_def forecast_dict_def
      mul_float_def)

lemma get_weatherstack_example:
  "get_weatherstack
       (Responds \<lparr>status_code = s, json_body = Some (weatherstack_body t r c kmh)\<rparr>)
     = (if 400 \<le> s \<and> s < 600 then Inr None
        else case as_float kmh of
               Inl err \<Rightarrow> Inr None
             | Inr x \<Rightarrow> Inr (Some \<lparr>source = ''Weatherstack'', temp = t, rain = r,
                                    condition = c, wind = JNum (x * 0.277778)\<rparr>))"
  by (cases "as_float kmh")
    (simp_all add: get_weatherstack_def weatherstack_body_def retry_get_def
      response_truthy_def response_json_def except_return_None_def forecast_dict_def
      mul_float_def)

lemma get_openmeteo_example:
  "get_openmeteo (Responds \<lparr>status_code = s, json_body = Some (openmeteo_body t r w)\<rparr>)
       ''2026-11-04''
     = (if 400 \<le> s \<and> s < 600 then Inr None
        else Inr (Some \<lparr>source = ''Open-Meteo'', temp = t, rain = r,
                        condition = JStr ''Storm'', wind = w\<rparr>))"
  by (simp add: get_openmeteo_def openmeteo_body_def retry_get_def
      response_truthy_def response_json_def except_return_None_def forecast_dict_def
      storm_code_def)

lemma normalizers_total:
  "(\<exists>res. get_openweather out tom = Inr res) \<and> (\<exists>res. get_weatherapi out = Inr res)
   \<and> (\<exists>res. get_openmeteo out tom = Inr res) \<and> (\<exists>res. get_weatherstack out = Inr res)"
  unfolding get_openweather_def get_weatherapi_def get_openmeteo_def get_weatherstack_def
  by (intro conjI except_return_None_total)

lemma normalizers_no_response:
  "get_openweather Raises tom = Inr None \<and> get_weatherapi Raises = Inr None
   \<and> get_openmeteo Raises tom = Inr None \<and> get_weatherstack Raises = Inr None"
  by (simp add: get_openweather_def get_weatherapi_def get_openmeteo_def get_weatherstack_def
      retry_get_def except_return_None_def)

lemma normalizers_error_status:
  "400 \<le> status_code r \<and> status_code r < 600 \<longrightarrow>
     get_openweather (Responds r) tom = Inr None \<and> get_weatherapi (Responds r) = Inr None
     \<and> get_openmeteo (Responds r) tom = Inr None \<and> get_weatherstack (Responds r) = Inr None"
  by (simp add: get_openweather_def get_weatherapi_def get_openmeteo_def get_weatherstack_def
      retry_get_def response_truthy_def except_return_None_def)

lemma normalizers_not_json:
  "json_body r = None \<longrightarrow>
     get_openweather (Responds r) tom = Inr None \<and> get_weatherapi (Responds r) = Inr None
     \<and> get_openmeteo (Responds r) tom = Inr None \<and> get_weatherstack (Responds r) = Inr None"
  by (simp add: get_openweather_def get_weatherapi_def get_openmeteo_def get_weatherstack_def
      retry_get_def response_json_def except_return_None_def)

lemma normalizers_empty_object:
  "get_openweather (ok_response (JObj [])) tom = Inr None
   \<and> get_weatherapi (ok_response (JObj [])) = Inr None
   \<and> get_openmeteo (ok_response (JObj [])) tom = Inr None
   \<and> get_weatherstack (ok_response (JObj [])) = Inr None"
  by (simp add: get_openweather_def get_weatherapi_def get_openmeteo_def get_weatherstack_def
      ok_response_def retry_get_def response_truthy_def response_json_def
      except_return_None_def)

lemma normalizers_no_target:
  "get_openweather (ok_response (openweather_body t c w)) ''2026-11-05'' = Inr None
   \<and> get_openmeteo (ok_response (openmeteo_body t r w)) ''2026-11-05'' = Inr None"
  by (simp add: get_openweather_def get_openmeteo_def ok_response_def openweather_body_def
      openmeteo_body_def retry_get_def response_truthy_def response_json_def
      except_return_None_def openweather_match_def)

subsubsection \<open>The wind of a forecast\<close>








text \<open>
  C7 as stated fails. A field of the wrong type is not a failure to a normalizer: the
  OpenWeatherMap response whose temperature is the text "warm" yields a forecast with
  that temperature. Nor is every status outside 2xx: a response with status 300 and a
  well-formed body yields a forecast.
\<close>

theorem normalizers_accept_malformed:
  "get_openweather
       (ok_response (openweather_body (JStr ''warm'') (JStr ''clear sky'') (JInt 3)))
       ''2026-11-04''
     = Inr (Some \<lparr>source = ''OpenWeatherMap'', temp = JStr ''warm'', rain = JInt 0,
                   condition = JStr ''clear sky'', wind = JInt 3\<rparr>)
   \<and> get_weatherapi
       (Responds \<lparr>status_code = 300,
                  json_body = Some (weatherapi_body (JInt 26) (JInt 1) (JStr ''Sunny'')
                                      (JInt 10))\<rparr>)
     = Inr (Some \<lparr>source = ''WeatherAPI'', temp = JInt 26, rain = JInt 1,
                   condition = JStr ''Sunny'', wind = JNum (10 * 0.44704)\<rparr>)"
  using get_openweather_example [of 200 "JStr ''warm''" "JStr ''clear sky''" "JInt 3"]
    get_weatherapi_example [of 300 "JInt 26" "JInt 1" "JStr ''Sunny''" "JInt 10"]
  by (simp add: ok_response_def)

text \<open>
  C7 as amended: no normalizer ever raises; its result is a forecast or \<^verbatim>\<open>None\<close>. It
  returns a forecast exactly when the HTTP call returned a response whose status is not
  400 to 599 (a status outside 2xx otherwise is treated like 2xx), the body is JSON and
  every subscript on the way to the fields succeeds: for OpenWeatherMap on the first
  entry of the list whose \<^verbatim>\<open>dt_txt\<close> starts with tomorrow's date and contains 12:00:00,
  for Open-Meteo at the position of tomorrow's 12:00 in the hourly times. In every other
  case it returns \<^verbatim>\<open>None\<close>: when the call raises, when the status is 400 to 599, when
  the body is not JSON, when a key or an index is missing or a value cannot be
  subscripted (the empty object is the example), when there is no entry for the target
  time. The values found are not validated: those of any JSON type are copied into the
  forecast, and only the wind of WeatherAPI and of Weatherstack must be a number that
  converts to a float. The rain of OpenWeatherMap is 0 when the entry has no \<^verbatim>\<open>rain\<close>
  or its \<^verbatim>\<open>rain\<close> has no \<^verbatim>\<open>3h\<close>.
\<close>

theorem normalizers_fail_soft:
  "((\<exists>res. get_openweather out tom = Inr res) \<and> (\<exists>res. get_weatherapi out = Inr res)
     \<and> (\<exists>res. get_openmeteo out tom = Inr res) \<and> (\<exists>res. get_weatherstack out = Inr res))
   \<and> (get_openweather out tom = Inr (Some f) \<longleftrightarrow>
        (\<exists>resp data. out = Responds resp
           \<and> \<not> (400 \<le> status_code resp \<and> status_code resp < 600)
           \<and> json_body resp = Some data \<and> openweather_reads tom data f))
   \<and> (get_weatherapi out = Inr (Some f) \<longleftrightarrow>
        (\<exists>resp data. out = Responds resp
           \<and> \<not> (400 \<le> status_code resp \<and> status_code resp < 600)
           \<and> json_body resp = Some data \<and> weatherapi_reads data f))
   \<and> (get_openmeteo out tom = Inr (Some f) \<longleftrightarrow>
        (\<exists>resp data. out = Responds resp
           \<and> \<not> (400 \<le> status_code resp \<and> status_code resp < 600)
           \<and> json_body resp = Some data \<and> openmeteo_reads tom data f))
   \<and> (get_weatherstack out = Inr (Some f) \<longleftrightarrow>
        (\<exists>resp data. out = Responds resp
           \<and> \<not> (400 \<le> status_code resp \<and> status_code resp < 600)
           \<and> json_body resp = Some data \<and> weatherstack_reads data f))
   \<and> (get_openweather Raises tom = Inr None \<and> get_weatherapi Raises = Inr None
     \<and> get_openmeteo Raises tom = Inr None \<and> get_weatherstack Raises = Inr None)
   \<and> (400 \<le> status_code r \<and> status_code r < 600 \<longrightarrow>
        get_openweather (Responds r) tom = Inr None \<and> get_weatherapi (Responds r) = Inr None
        \<and> get_openmeteo (Responds r) tom = Inr None \<and> get_weatherstack (Responds r) = Inr None)
   \<and> (json_body r = None \<longrightarrow>
        get_openweather (Responds r) tom = Inr None \<and> get_weatherapi (Responds r) = Inr None
        \<and> get_openmeteo (Responds r) tom = Inr None \<and> get_weatherstack (Responds r) = Inr None)
   \<and> get_openweather
        (Responds \<lparr>status_code = s, json_body = Some (openweather_body t c w)\<rparr>) ''2026-11-04''
       = (if 400 \<le> s \<and> s < 600 then Inr None
          else Inr (Some \<lparr>source = ''OpenWeatherMap'', temp = t, rain = JInt 0,
                          condition = c, wind = w\<rparr>))
   \<and> get_weatherapi
        (Responds \<lparr>status_code = s, json_body = Some (weatherapi_body t p c w)\<rparr>)
       = (if 400 \<le> s \<and> s < 600 then Inr None
          else case as_float w of
                 Inl err \<Rightarrow> Inr None
               | Inr x \<Rightarrow> Inr (Some \<lparr>source = ''WeatherAPI'', temp = t, rain = p,
                                      condition = c, wind = JNum (x * 0.44704)\<rparr>))
   \<and> get_weatherstack
        (Responds \<lparr>status_code = s, json_body = Some (weatherstack_body t p c w)\<rparr>)
       = (if 400 \<le> s \<and> s < 600 then Inr None
          else case as_float w of
                 Inl err \<Rightarrow> Inr None
               | Inr x \<Rightarrow> Inr (Some \<lparr>source = ''Weatherstack'', temp = t, rain = p,
                                      condition = c, wind = JNum (x * 0.277778)\<rparr>))
   \<and> get_openmeteo
        (Responds \<lparr>status_code = s, json_body = Some (openmeteo_body t p w)\<rparr>) ''2026-11-04''
       = (if 400 \<le> s \<and> s < 600 then Inr None
          else Inr (Some \<lparr>source = ''Open-Meteo'', temp = t, rain = p,
                          condition = JStr ''Storm'', wind = w\<rparr>))
   \<and> (get_openweather (ok_response (JObj [])) tom = Inr None
     \<and> get_weatherapi (ok_response (JObj [])) = Inr None
     \<and> get_openmeteo (ok_response (JObj [])) tom = Inr None
     \<and> get_weatherstack (ok_response (JObj [])) = Inr None)
   \<and> (get_openweather (ok_response (openweather_body t c w)) ''2026-11-05'' = Inr None
     \<and> get_openmeteo (ok_response (openmeteo_body t p w)) ''2026-11-05'' = Inr None)"
  by (rule normalizers_total get_openweather_Some_iff get_weatherapi_Some_iff
      get_openmeteo_Some_iff get_weatherstack_Some_iff normalizers_no_response
      normalizers_error_status normalizers_not_json get_openweather_example
      get_weatherapi_example get_weatherstack_example get_openmeteo_example
      normalizers_empty_object normalizers_no_target conjI)+

theorem normalizers_fail_soft_witness:
  "400 \<le> status_code unavailable \<and> status_code unavailable < 600
   \<and> json_body unavailable = None
   \<and> get_openweather (Responds unavailable) ''2026-11-04'' = Inr None
   \<and> get_weatherapi (Responds unavailable) = Inr None
   \<and> get_openmeteo (Responds unavailable) ''2026-11-04'' = Inr None
   \<and> get_weatherstack (Responds unavailable) = Inr None
   \<and> get_weatherapi (Responds \<lparr>status_code = 200, json_body = None\<rparr>) = Inr None
   \<and> weatherstack_reads
        (weatherstack_body (JInt 27) JNull (JArr []) (JBool True))
        \<lparr>source = ''Weatherstack'', temp = JInt 27, rain = JNull, condition = JArr [],
         wind = JNum (1 * 0.277778)\<rparr>"
proof -
  have st: "400 \<le> status_code unavailable \<and> status_code unavailable < 600"
    and nj: "json_body unavailable = None"
    by (simp_all add: unavailable_def)
  note bad = normalizers_fail_soft [of "Responds unavailable" "''2026-11-04''" _ unavailable]
  note a = bad [THEN conjunct2, THEN conjunct2, THEN conjunct2, THEN conjunct2, THEN conjunct2,
      THEN conjunct2, THEN conjunct1, THEN mp, OF st]
  have b: "get_weatherapi (Responds \<lparr>status_code = 200, json_body = None\<rparr>) = Inr None"
    using normalizers_fail_soft [of _ "''2026-11-04''" _
        "\<lparr>status_code = 200, json_body = None\<rparr>",
      THEN conjunct2, THEN conjunct2, THEN conjunct2, THEN conjunct2, THEN conjunct2,
      THEN conjunct2, THEN conjunct2, THEN conjunct1, THEN mp]
    by simp
  let ?ws = "weatherstack_body (JInt 27) JNull (JArr []) (JBool True)"
  let ?fs = "\<lparr>source = ''Weatherstack'', temp = JInt 27, rain = JNull, condition = JArr [],
              wind = JNum (1 * 0.277778)\<rparr>"
  note good = normalizers_fail_soft [of "ok_response ?ws" _ ?fs]
  have es: "get_weatherstack (ok_response ?ws) = Inr (Some ?fs)"
    using good [THEN conjunct2, THEN conjunct2, THEN conjunct2, THEN conjunct2, THEN conjunct2,
      THEN conjunct2, THEN conjunct2, THEN conjunct2, THEN conjunct2, THEN conjunct2,
      THEN conjunct1, of 200 "JInt 27" JNull "JArr []" "JBool True"]
    by (simp add: ok_response_def)
  have rs: "weatherstack_reads ?ws ?fs"
    using good [THEN conjunct2, THEN conjunct2, THEN conjunct2, THEN conjunct2, THEN conjunct1,
      THEN iffD1, OF es]
    by (auto simp: ok_response_def)
  show ?thesis
    by (rule st [THEN conjunct1] st [THEN conjunct2] nj a [THEN conjunct1]
        a [THEN conjunct2, THEN conjunct1] a [THEN conjunct2, THEN conjunct2, THEN conjunct1]
        a [THEN conjunct2, THEN conjunct2, THEN conjunct2] b rs conjI)+
qed

end
